theory Spec2Isabelle
  imports Complex_Main
begin

section \<open>The page the scripts run on\<close>

text \<open>
  \<^verbatim>\<open>admin.js\<close> and \<^verbatim>\<open>user.js\<close> look their elements up once, at load time, with
  \<^verbatim>\<open>document.getElementById\<close>; every use is guarded by \<^verbatim>\<open>if (el)\<close>. The HTML
  template is not part of the scripts, so which elements exist, and which of the tabs
  carry the CSS class \<^verbatim>\<open>nav-tab\<close>, is a parameter of the model.
\<close>

datatype tab = UsersTab | ClubTab | AttendanceTab | ScanTab | PunchTab | LogoutTab

datatype panel = EmployeesSection | ClubSection

record dom =
  has_usersTab :: bool
  has_clubTab :: bool
  has_attendanceTab :: bool
  has_scanTab :: bool
  has_punchTab :: bool
  has_logoutTab :: bool
  has_employeesSection :: bool
  has_clubSection :: bool
  has_userRows :: bool
  has_clubCards :: bool
  has_prevPageBtn :: bool
  has_nextPageBtn :: bool
  has_currentPageNumDisplay :: bool
  has_totalPageNumDisplay :: bool
  nav_tab :: "tab set"

text \<open>What \<^verbatim>\<open>document.querySelectorAll(".nav-tab")\<close> returns, among the tabs, is \<^const>\<open>nav_tab\<close>.\<close>

fun has_tab :: "dom \<Rightarrow> tab \<Rightarrow> bool" where
  "has_tab d UsersTab = has_usersTab d"
| "has_tab d ClubTab = has_clubTab d"
| "has_tab d AttendanceTab = has_attendanceTab d"
| "has_tab d ScanTab = has_scanTab d"
| "has_tab d PunchTab = has_punchTab d"
| "has_tab d LogoutTab = has_logoutTab d"

fun has_panel :: "dom \<Rightarrow> panel \<Rightarrow> bool" where
  "has_panel d EmployeesSection = has_employeesSection d"
| "has_panel d ClubSection = has_clubSection d"

section \<open>State\<close>

text \<open>
  A section element: whether its class list holds \<^verbatim>\<open>hidden\<close>, and its inline
  \<^verbatim>\<open>style.display\<close>. The stylesheet is not part of the scripts; whatever it says
  about the class, an element with inline display \<^verbatim>\<open>none\<close> is not rendered, and one
  with inline display \<^verbatim>\<open>flex\<close> and without the class is.
\<close>

record panel_style =
  hidden_class :: bool
  style_display :: string

definition is_shown :: "panel_style \<Rightarrow> bool" where
  "is_shown p = (\<not> hidden_class p \<and> style_display p = ''flex'')"

definition is_hidden :: "panel_style \<Rightarrow> bool" where
  "is_hidden p = (style_display p = ''none'')"

text \<open>An employee of the response, and the row \<^verbatim>\<open>fetchUsers\<close> builds from it.\<close>

record emp =
  emp_id :: int
  emp_name :: string
  member_code :: "string option"
  image_path :: "string option"

record user_row =
  row_id :: int
  row_name :: string
  row_code :: string
  row_img :: string

text \<open>
  A missing field and the empty string are both falsy in JavaScript:
  \<^verbatim>\<open>emp.member_code || "-"\<close> and
  \<^verbatim>\<open>emp.image_path ? `/uploads/${emp.image_path}` : defaultProfileIcon\<close>.
\<close>

fun truthy :: "string option \<Rightarrow> bool" where
  "truthy None = False"
| "truthy (Some v) = (v \<noteq> [])"

fun text_of :: "string option \<Rightarrow> string" where
  "text_of None = []"
| "text_of (Some v) = v"

definition defaultProfileIcon :: string where
  "defaultProfileIcon = ''/static/images/profile_icon.png''"

definition make_row :: "emp \<Rightarrow> user_row" where
  "make_row e =
     \<lparr>row_id = emp_id e,
      row_name = emp_name e,
      row_code = (if truthy (member_code e) then text_of (member_code e) else ''-''),
      row_img = (if truthy (image_path e) then ''/uploads/'' @ text_of (image_path e)
                 else defaultProfileIcon)\<rparr>"

datatype rows_view =
  TemplateRows | LoadingUsers | UserRows "user_row list" | NoUsersFound | ErrorConnecting

record club =
  club_id :: int
  club_name :: string
  club_code :: string
  club_url :: string

datatype cards_view =
  TemplateCards | LoadingClubs | ClubCards "club list" | NoClubsFound | ErrorFetchingClubs

text \<open>The text of a page-number display: as the template shipped it, or a number written
  by the script.\<close>

datatype num_text = TemplateText | NumberText int

text \<open>
  The requests the scripts issue. \<^verbatim>\<open>admin.js\<close> asks for
  \<^verbatim>\<open>/employees?page=p&size=s\<close> and \<^verbatim>\<open>/clubs\<close>, \<^verbatim>\<open>user.js\<close> for
  \<^verbatim>\<open>/employees/\<close> and \<^verbatim>\<open>/clubs/\<close>.
\<close>

datatype request =
  GET_employees_page int int | GET_clubs | GET_employees_slash | GET_clubs_slash

text \<open>
  The module-level variables \<^verbatim>\<open>currentPage\<close> and \<^verbatim>\<open>totalEmployees\<close>, the part of
  the document the scripts write, the requests issued so far, and the last value
  assigned to \<^verbatim>\<open>window.location.href\<close>. Numbers are the integers that JSON integers
  give; on these \<^verbatim>\<open>Math.ceil(a / 7)\<close> is exact.
\<close>

record state =
  currentPage :: int
  totalEmployees :: int
  nav_active :: "tab set"
  employeesSection :: panel_style
  clubSection :: panel_style
  userRows :: rows_view
  clubCards :: cards_view
  prevPage_disabled :: bool
  nextPage_disabled :: bool
  currentPageNum :: num_text
  totalPageNum :: num_text
  requests :: "request list"
  location_href :: "string option"

section \<open>What a fetch can come back with\<close>

text \<open>
  \<^verbatim>\<open>await fetch(...)\<close> rejects on a network error; otherwise there is a response with
  its \<^verbatim>\<open>ok\<close> flag, and \<^verbatim>\<open>await res.json()\<close> rejects when the body is not JSON.
  A parsed body is \<^verbatim>\<open>null\<close> or a value whose fields can be read.
\<close>

datatype 'a json_body = NotJson | JsonNull | JsonObject 'a

datatype 'a fetched = NetworkError | Response bool "'a json_body"

text \<open>
  What \<^verbatim>\<open>data.employees\<close> reads:
  \<^item> \<open>Absent\<close>: the field is missing, \<^verbatim>\<open>null\<close> or another falsy value;
  \<^item> \<open>Entries\<close>: an array, whose entries are records or \<^verbatim>\<open>null\<close> (\<^const>\<open>None\<close>);
  \<^item> \<open>NotArray\<close>: a truthy value that is not an array, with whether its
    \<^verbatim>\<open>length\<close> is above 0 (a non-empty string, say); it has no \<^verbatim>\<open>forEach\<close>.
\<close>

datatype employees_value = Absent | Entries "emp option list" | NotArray bool

record page_data =
  data_employees :: employees_value
  data_total :: int
  data_page :: int

record clubs_data =
  data_clubs :: "club list option"

datatype js_error = FetchRejected | JsonSyntaxError | NullTypeError | NotAFunction

section \<open>Pagination\<close>

definition pageSize :: int where
  "pageSize = 7"

text \<open>\<^verbatim>\<open>Math.ceil(a / b)\<close> on integers, for a positive \<^verbatim>\<open>b\<close>.\<close>

definition Math_ceil_div :: "int \<Rightarrow> int \<Rightarrow> int" where
  "Math_ceil_div a b = - ((- a) div b)"

text \<open>
  \<^verbatim>\<open>const totalPages = Math.ceil(totalEmployees / pageSize) || 1;\<close>
  of \<^verbatim>\<open>updatePaginationUI\<close>: the only falsy integer is zero.
\<close>

definition totalPages :: "int \<Rightarrow> int" where
  "totalPages n =
     (let c = Math_ceil_div n pageSize in if c = 0 then 1 else c)"

definition updatePaginationUI :: "dom \<Rightarrow> state \<Rightarrow> state" where
  "updatePaginationUI d s =
     (let tp = totalPages (totalEmployees s);
          s1 = (if has_currentPageNumDisplay d
                then s\<lparr>currentPageNum := NumberText (currentPage s)\<rparr> else s);
          s2 = (if has_totalPageNumDisplay d
                then s1\<lparr>totalPageNum := NumberText tp\<rparr> else s1);
          s3 = (if has_prevPageBtn d
                then s2\<lparr>prevPage_disabled := (currentPage s \<le> 1)\<rparr> else s2)
      in if has_nextPageBtn d
         then s3\<lparr>nextPage_disabled := (currentPage s \<ge> tp)\<rparr> else s3)"

section \<open>fetchUsers of admin.js\<close>

text \<open>
  An \<^verbatim>\<open>async\<close> function runs up to its first \<^verbatim>\<open>await\<close> when it is called and
  the rest when the awaited promise settles. \<open>fetchUsers\<close> is the first part: the
  early return, the loading placeholder and the request.
\<close>

definition fetchUsers :: "dom \<Rightarrow> int \<Rightarrow> state \<Rightarrow> state" where
  "fetchUsers d p s =
     (if \<not> has_userRows d then s
      else s\<lparr>userRows := LoadingUsers,
             requests := requests s @ [GET_employees_page p pageSize]\<rparr>)"

text \<open>The \<^verbatim>\<open>else\<close> branch of the test on the response.\<close>

definition fetchUsers_none :: "dom \<Rightarrow> state \<Rightarrow> state" where
  "fetchUsers_none d s =
     updatePaginationUI d (s\<lparr>userRows := NoUsersFound, totalEmployees := 0\<rparr>)"

text \<open>
  The loop \<^verbatim>\<open>data.employees.forEach(emp => ...)\<close>, appending a row per entry. Reading
  \<^verbatim>\<open>emp.image_path\<close> of a \<^verbatim>\<open>null\<close> entry throws; the rows appended before it stay.
\<close>

fun forEach_rows ::
  "emp option list \<Rightarrow> user_row list \<Rightarrow> (js_error \<times> user_row list) + user_row list" where
  "forEach_rows [] rows = Inr rows"
| "forEach_rows (None # es) rows = Inl (NullTypeError, rows)"
| "forEach_rows (Some e # es) rows = forEach_rows es (rows @ [make_row e])"

text \<open>
  The first statements of the \<^verbatim>\<open>then\<close> branch: the list is emptied and
  \<^verbatim>\<open>totalEmployees\<close> and \<^verbatim>\<open>currentPage\<close> are assigned, before any row is built.
\<close>

definition fetchUsers_assign :: "page_data \<Rightarrow> state \<Rightarrow> state" where
  "fetchUsers_assign data s =
     s\<lparr>userRows := UserRows [],
       totalEmployees := data_total data,
       currentPage := data_page data\<rparr>"

text \<open>
  The body of the \<^verbatim>\<open>try\<close> block once the fetch has settled. The test is
  \<^verbatim>\<open>res.ok && data.employees && data.employees.length > 0\<close>: with a \<^verbatim>\<open>null\<close> body,
  reading \<^verbatim>\<open>data.employees\<close> throws, but only when \<^verbatim>\<open>res.ok\<close> let the
  evaluation get there. A throw comes with the state it leaves behind: the variables
  assigned before it keep their new values.
\<close>

fun fetchUsers_try ::
  "dom \<Rightarrow> page_data fetched \<Rightarrow> state \<Rightarrow> (js_error \<times> state) + state" where
  "fetchUsers_try d NetworkError s = Inl (FetchRejected, s)"
| "fetchUsers_try d (Response ok NotJson) s = Inl (JsonSyntaxError, s)"
| "fetchUsers_try d (Response ok JsonNull) s =
     (if ok then Inl (NullTypeError, s) else Inr (fetchUsers_none d s))"
| "fetchUsers_try d (Response ok (JsonObject data)) s =
     (case data_employees data of
        Absent \<Rightarrow> Inr (fetchUsers_none d s)
      | NotArray has_length \<Rightarrow>
          if ok \<and> has_length then Inl (NotAFunction, fetchUsers_assign data s)
          else Inr (fetchUsers_none d s)
      | Entries es \<Rightarrow>
          if ok \<and> length es > 0 then
            (case forEach_rows es [] of
               Inl (err, rows) \<Rightarrow>
                 Inl (err, (fetchUsers_assign data s)\<lparr>userRows := UserRows rows\<rparr>)
             | Inr rows \<Rightarrow>
                 Inr (updatePaginationUI d
                        ((fetchUsers_assign data s)\<lparr>userRows := UserRows rows\<rparr>)))
          else Inr (fetchUsers_none d s))"

text \<open>
  The rest of \<open>fetchUsers\<close>, run when the fetch settles: the \<^verbatim>\<open>try\<close> block under
  its \<^verbatim>\<open>catch\<close>, which writes the error placeholder into the state the throw left.
  The result is a sum so that an exception leaving the function would show as
  \<^const>\<open>Inl\<close>.
\<close>

definition fetchUsers_settled :: "dom \<Rightarrow> page_data fetched \<Rightarrow> state \<Rightarrow> js_error + state" where
  "fetchUsers_settled d r s =
     (case fetchUsers_try d r s of
        Inl (err, s_thrown) \<Rightarrow> Inr (s_thrown\<lparr>userRows := ErrorConnecting\<rparr>)
      | Inr s' \<Rightarrow> Inr s')"

section \<open>fetchClubs of admin.js\<close>

definition fetchClubs :: "dom \<Rightarrow> state \<Rightarrow> state" where
  "fetchClubs d s =
     (if \<not> has_clubCards d then s
      else s\<lparr>clubCards := LoadingClubs, requests := requests s @ [GET_clubs]\<rparr>)"

fun fetchClubs_try :: "clubs_data fetched \<Rightarrow> state \<Rightarrow> js_error + state" where
  "fetchClubs_try NetworkError s = Inl FetchRejected"
| "fetchClubs_try (Response ok NotJson) s = Inl JsonSyntaxError"
| "fetchClubs_try (Response ok JsonNull) s =
     (if ok then Inl NullTypeError else Inr (s\<lparr>clubCards := NoClubsFound\<rparr>))"
| "fetchClubs_try (Response ok (JsonObject data)) s =
     (case data_clubs data of
        None \<Rightarrow> Inr (s\<lparr>clubCards := NoClubsFound\<rparr>)
      | Some cs \<Rightarrow>
          if ok \<and> length cs > 0 then Inr (s\<lparr>clubCards := ClubCards cs\<rparr>)
          else Inr (s\<lparr>clubCards := NoClubsFound\<rparr>))"

definition fetchClubs_settled :: "clubs_data fetched \<Rightarrow> state \<Rightarrow> js_error + state" where
  "fetchClubs_settled r s =
     (case fetchClubs_try r s of
        Inl err \<Rightarrow> Inr (s\<lparr>clubCards := ErrorFetchingClubs\<rparr>)
      | Inr s' \<Rightarrow> Inr s')"

section \<open>Sections and tabs of admin.js\<close>

definition set_panel :: "panel \<Rightarrow> (panel_style \<Rightarrow> panel_style) \<Rightarrow> state \<Rightarrow> state" where
  "set_panel p f s = (case p of
       EmployeesSection \<Rightarrow> s\<lparr>employeesSection := f (employeesSection s)\<rparr>
     | ClubSection \<Rightarrow> s\<lparr>clubSection := f (clubSection s)\<rparr>)"

text \<open>
  \<open>showSection\<close> hides every section that exists (class \<^verbatim>\<open>hidden\<close> added, display
  \<^verbatim>\<open>none\<close>) and then shows the target, if the target element exists.
\<close>

definition hide_panel :: "dom \<Rightarrow> panel \<Rightarrow> state \<Rightarrow> state" where
  "hide_panel d p s =
     (if has_panel d p
      then set_panel p (\<lambda>st. st\<lparr>hidden_class := True, style_display := ''none''\<rparr>) s
      else s)"

definition showSection :: "dom \<Rightarrow> panel \<Rightarrow> state \<Rightarrow> state" where
  "showSection d targetSection s =
     (let s1 = fold (hide_panel d) [EmployeesSection, ClubSection] s
      in if has_panel d targetSection
         then set_panel targetSection
                (\<lambda>st. st\<lparr>hidden_class := False, style_display := ''flex''\<rparr>) s1
         else s1)"

text \<open>
  \<open>setActiveTab\<close> takes \<^verbatim>\<open>nav-active\<close> off every element of class \<^verbatim>\<open>nav-tab\<close>
  and puts it on the given tab, if that element exists.
\<close>

definition setActiveTab :: "dom \<Rightarrow> tab \<Rightarrow> state \<Rightarrow> state" where
  "setActiveTab d activeTab s =
     (let s1 = s\<lparr>nav_active := nav_active s - nav_tab d\<rparr>
      in if has_tab d activeTab
         then s1\<lparr>nav_active := insert activeTab (nav_active s1)\<rparr>
         else s1)"

text \<open>
  The click listeners. A listener is attached only if its element exists, so a click on
  a missing tab does nothing; \<^verbatim>\<open>punchTab\<close> is looked up but gets no listener.
\<close>

definition usersTab_click :: "dom \<Rightarrow> state \<Rightarrow> state" where
  "usersTab_click d s =
     (if has_usersTab d
      then (let s1 = setActiveTab d UsersTab s;
                s2 = showSection d EmployeesSection s1;
                s3 = s2\<lparr>currentPage := 1\<rparr>
            in fetchUsers d (currentPage s3) s3)
      else s)"

definition clubTab_click :: "dom \<Rightarrow> state \<Rightarrow> state" where
  "clubTab_click d s =
     (if has_clubTab d
      then fetchClubs d (showSection d ClubSection (setActiveTab d ClubTab s))
      else s)"

definition navigate :: "dom \<Rightarrow> tab \<Rightarrow> string \<Rightarrow> state \<Rightarrow> state" where
  "navigate d t path s = (if has_tab d t then s\<lparr>location_href := Some path\<rparr> else s)"

fun selectTab :: "dom \<Rightarrow> tab \<Rightarrow> state \<Rightarrow> state" where
  "selectTab d UsersTab s = usersTab_click d s"
| "selectTab d ClubTab s = clubTab_click d s"
| "selectTab d AttendanceTab s = navigate d AttendanceTab ''/attendance'' s"
| "selectTab d ScanTab s = navigate d ScanTab ''/scan'' s"
| "selectTab d LogoutTab s = navigate d LogoutTab ''/logout'' s"
| "selectTab d PunchTab s = s"

text \<open>
  The listeners of the two pagination buttons, each with its own guard. The bound of the
  next listener is \<^verbatim>\<open>Math.ceil(totalEmployees / pageSize)\<close>, without the
  \<^verbatim>\<open>|| 1\<close> of \<open>updatePaginationUI\<close>. The guards are modelled as written, whether or
  not the button is disabled when the click arrives.
\<close>

definition prevPage_click :: "dom \<Rightarrow> state \<Rightarrow> state" where
  "prevPage_click d s =
     (if has_prevPageBtn d \<and> currentPage s > 1
      then fetchUsers d (currentPage s - 1) s
      else s)"

definition nextPage_click :: "dom \<Rightarrow> state \<Rightarrow> state" where
  "nextPage_click d s =
     (if has_nextPageBtn d
      then (let tp = Math_ceil_div (totalEmployees s) pageSize
            in if currentPage s < tp then fetchUsers d (currentPage s + 1) s else s)
      else s)"

text \<open>
  Loading the script: the declarations \<^verbatim>\<open>let currentPage = 1\<close> and
  \<^verbatim>\<open>let totalEmployees = 0\<close>, then the initial setup, on the document as the template
  gives it.
\<close>

definition load_admin :: "dom \<Rightarrow> state \<Rightarrow> state" where
  "load_admin d template =
     (let s0 = template\<lparr>currentPage := 1, totalEmployees := 0,
                        requests := [], location_href := None\<rparr>
      in if has_usersTab d
         then (let s1 = setActiveTab d UsersTab s0;
                   s2 = showSection d EmployeesSection s1;
                   s3 = s2\<lparr>currentPage := 1\<rparr>
               in fetchUsers d (currentPage s3) s3)
         else s0)"

section \<open>The same controls in user.js\<close>

text \<open>
  \<^verbatim>\<open>user.js\<close> has its own \<open>showSection\<close>: it sets the display of both sections to
  \<^verbatim>\<open>none\<close> without touching their classes, and gives the target display \<^verbatim>\<open>flex\<close>
  and takes \<^verbatim>\<open>hidden\<close> off it. Its \<open>setActiveTab\<close> is the one of \<^verbatim>\<open>admin.js\<close>.
  Its fetches are not paged.
\<close>

definition user_hide_panel :: "dom \<Rightarrow> panel \<Rightarrow> state \<Rightarrow> state" where
  "user_hide_panel d p s =
     (if has_panel d p then set_panel p (\<lambda>st. st\<lparr>style_display := ''none''\<rparr>) s else s)"

definition user_showSection :: "dom \<Rightarrow> panel \<Rightarrow> state \<Rightarrow> state" where
  "user_showSection d sectionToShow s =
     (let s1 = user_hide_panel d ClubSection (user_hide_panel d EmployeesSection s)
      in if has_panel d sectionToShow
         then set_panel sectionToShow
                (\<lambda>st. st\<lparr>style_display := ''flex'', hidden_class := False\<rparr>) s1
         else s1)"

definition user_fetchUsers :: "dom \<Rightarrow> state \<Rightarrow> state" where
  "user_fetchUsers d s =
     (if \<not> has_userRows d then s
      else s\<lparr>userRows := LoadingUsers, requests := requests s @ [GET_employees_slash]\<rparr>)"

definition user_fetchClubs :: "dom \<Rightarrow> state \<Rightarrow> state" where
  "user_fetchClubs d s =
     (if \<not> has_clubCards d then s
      else s\<lparr>clubCards := LoadingClubs, requests := requests s @ [GET_clubs_slash]\<rparr>)"

fun user_selectTab :: "dom \<Rightarrow> tab \<Rightarrow> state \<Rightarrow> state" where
  "user_selectTab d UsersTab s =
     (if has_usersTab d
      then user_fetchUsers d (user_showSection d EmployeesSection (setActiveTab d UsersTab s))
      else s)"
| "user_selectTab d ClubTab s =
     (if has_clubTab d
      then user_fetchClubs d (user_showSection d ClubSection (setActiveTab d ClubTab s))
      else s)"
| "user_selectTab d AttendanceTab s = navigate d AttendanceTab ''/attendance'' s"
| "user_selectTab d ScanTab s = navigate d ScanTab ''/scan'' s"
| "user_selectTab d LogoutTab s = navigate d LogoutTab ''/logout'' s"
| "user_selectTab d PunchTab s = s"

definition load_user :: "dom \<Rightarrow> state \<Rightarrow> state" where
  "load_user d template =
     (let s0 = template\<lparr>requests := [], location_href := None\<rparr>
      in if has_usersTab d
         then user_fetchUsers d (user_showSection d EmployeesSection (setActiveTab d UsersTab s0))
         else s0)"

section \<open>Events\<close>

text \<open>
  What can happen to the admin page after it has loaded: a click on a tab or on a
  pagination button, or a fetch settling. A fetch is only under way if the function got
  past its early return, that is, if the list element exists.
\<close>

datatype event =
  Click tab | ClickPrev | ClickNext
  | EmployeesSettled "page_data fetched" | ClubsSettled "clubs_data fetched"

fun the_state :: "js_error + state \<Rightarrow> state \<Rightarrow> state" where
  "the_state (Inr s') s = s'"
| "the_state (Inl err) s = s"

fun step :: "dom \<Rightarrow> state \<Rightarrow> event \<Rightarrow> state" where
  "step d s (Click t) = selectTab d t s"
| "step d s ClickPrev = prevPage_click d s"
| "step d s ClickNext = nextPage_click d s"
| "step d s (EmployeesSettled r) =
     (if has_userRows d then the_state (fetchUsers_settled d r s) s else s)"
| "step d s (ClubsSettled r) =
     (if has_clubCards d then the_state (fetchClubs_settled r s) s else s)"

definition run :: "dom \<Rightarrow> state \<Rightarrow> event list \<Rightarrow> state" where
  "run d s es = foldl (step d) s es"

text \<open>
  A page with every element the scripts look for, where the tabs are the elements of
  class \<^verbatim>\<open>nav-tab\<close>, and a document on which nothing is marked or hidden yet.
\<close>

definition full_page :: dom where
  "full_page =
     \<lparr>has_usersTab = True, has_clubTab = True, has_attendanceTab = True,
      has_scanTab = True, has_punchTab = True, has_logoutTab = True,
      has_employeesSection = True,
      has_clubSection = True, has_userRows = True, has_clubCards = True,
      has_prevPageBtn = True, has_nextPageBtn = True,
      has_currentPageNumDisplay = True, has_totalPageNumDisplay = True,
      nav_tab = {UsersTab, ClubTab, AttendanceTab, ScanTab, PunchTab, LogoutTab}\<rparr>"

definition plain_style :: panel_style where
  "plain_style = \<lparr>hidden_class = False, style_display = []\<rparr>"

definition template_state :: state where
  "template_state =
     \<lparr>currentPage = 1, totalEmployees = 0, nav_active = {},
      employeesSection = plain_style, clubSection = plain_style,
      userRows = TemplateRows, clubCards = TemplateCards,
      prevPage_disabled = False, nextPage_disabled = False,
      currentPageNum = TemplateText, totalPageNum = TemplateText,
      requests = [], location_href = None\<rparr>"

section \<open>The properties' vocabulary\<close>

text \<open>The pagination invariant: the current page lies between 1 and the page count.\<close>

definition page_in_range :: "state \<Rightarrow> bool" where
  "page_in_range s =
     (1 \<le> currentPage s \<and> currentPage s \<le> totalPages (totalEmployees s))"

text \<open>
  Tab \<open>t\<close> is the one tab marked active, its section is shown and the other section is
  hidden. The users tab goes with the employees section, the club tab with the club
  section, as in the two click listeners.
\<close>

definition exclusive :: "tab \<Rightarrow> state \<Rightarrow> bool" where
  "exclusive t s =
     (nav_active s = {t}
      \<and> (case t of
           UsersTab \<Rightarrow> is_shown (employeesSection s) \<and> is_hidden (clubSection s)
         | ClubTab \<Rightarrow> is_shown (clubSection s) \<and> is_hidden (employeesSection s)
         | _ \<Rightarrow> False))"

text \<open>The state after the script has loaded and the given tabs were clicked, in order.\<close>

definition admin_clicks :: "dom \<Rightarrow> state \<Rightarrow> tab list \<Rightarrow> state" where
  "admin_clicks d template ts = foldl (\<lambda>s t. selectTab d t s) (load_admin d template) ts"

definition user_clicks :: "dom \<Rightarrow> state \<Rightarrow> tab list \<Rightarrow> state" where
  "user_clicks d template ts = foldl (\<lambda>s t. user_selectTab d t s) (load_user d template) ts"

text \<open>Concrete inputs: an employee, a page of the contract's shape, an error body without
  the fields (its two numbers are never read), and the state of a session that has paged
  forward to page 2 of 15 employees and has just asked for page 3.\<close>

definition an_emp :: emp where
  "an_emp = \<lparr>emp_id = 1, emp_name = ''A'', member_code = None, image_path = None\<rparr>"

definition page_response :: "int \<Rightarrow> int \<Rightarrow> emp list \<Rightarrow> page_data fetched" where
  "page_response p n es =
     Response True
       (JsonObject \<lparr>data_employees = Entries (map Some es), data_total = n, data_page = p\<rparr>)"

definition error_response :: "page_data fetched" where
  "error_response =
     Response False (JsonObject \<lparr>data_employees = Absent, data_total = 0, data_page = 0\<rparr>)"

definition on_page_two :: state where
  "on_page_two = run full_page (load_admin full_page template_state)
     [EmployeesSettled (page_response 1 15 [an_emp]), ClickNext,
      EmployeesSettled (page_response 2 15 [an_emp]), ClickNext]"

section \<open>Properties\<close>

subsection \<open>Helper facts\<close>

lemma full_page_elements [simp]:
  "has_usersTab full_page" "has_clubTab full_page" "has_attendanceTab full_page"
  "has_scanTab full_page" "has_logoutTab full_page"
  "has_employeesSection full_page" "has_clubSection full_page"
  "has_userRows full_page" "has_clubCards full_page"
  "has_prevPageBtn full_page" "has_nextPageBtn full_page"
  "has_currentPageNumDisplay full_page" "has_totalPageNumDisplay full_page"
  by (simp_all add: full_page_def)

lemma Math_ceil_div_ceiling:
  "Math_ceil_div a b = \<lceil>real_of_int a / real_of_int b\<rceil>"
  by (simp add: Math_ceil_div_def ceiling_divide_eq_div)

lemma Math_ceil_div_nonneg: "0 \<le> a \<Longrightarrow> 0 \<le> Math_ceil_div a pageSize"
  by (simp add: Math_ceil_div_ceiling pageSize_def)

lemma updatePaginationUI_keeps [simp]:
  "currentPage (updatePaginationUI d s) = currentPage s"
  "totalEmployees (updatePaginationUI d s) = totalEmployees s"
  "userRows (updatePaginationUI d s) = userRows s"
  "requests (updatePaginationUI d s) = requests s"
  by (simp_all add: updatePaginationUI_def Let_def)

lemma updatePaginationUI_buttons:
  "has_prevPageBtn d \<Longrightarrow> prevPage_disabled (updatePaginationUI d s) = (currentPage s \<le> 1)"
  "has_nextPageBtn d \<Longrightarrow>
     nextPage_disabled (updatePaginationUI d s)
       = (currentPage s \<ge> totalPages (totalEmployees s))"
  by (simp_all add: updatePaginationUI_def Let_def)

lemma fetchUsers_none_fields [simp]:
  "currentPage (fetchUsers_none d s) = currentPage s"
  "totalEmployees (fetchUsers_none d s) = 0"
  "userRows (fetchUsers_none d s) = NoUsersFound"
  "requests (fetchUsers_none d s) = requests s"
  by (simp_all add: fetchUsers_none_def)

lemma fetchUsers_assign_fields [simp]:
  "currentPage (fetchUsers_assign data s) = data_page data"
  "totalEmployees (fetchUsers_assign data s) = data_total data"
  "requests (fetchUsers_assign data s) = requests s"
  by (simp_all add: fetchUsers_assign_def)

text \<open>A list without \<^verbatim>\<open>null\<close> entries gives one row per entry, in order.\<close>

lemma forEach_rows_records:
  "forEach_rows (map Some es) rows = Inr (rows @ map make_row es)"
  by (induction es arbitrary: rows) simp_all

text \<open>When the \<^verbatim>\<open>try\<close> block completes, it went through one of its two branches.\<close>

lemma fetchUsers_try_cases:
  assumes "fetchUsers_try d r s = Inr s'"
  obtains (records) data es rows where "r = Response True (JsonObject data)"
      "data_employees data = Entries es" "es \<noteq> []" "forEach_rows es [] = Inr rows"
      "s' = updatePaginationUI d ((fetchUsers_assign data s)\<lparr>userRows := UserRows rows\<rparr>)"
  | (none) "s' = fetchUsers_none d s"
  using assms
  by (cases "(d, r, s)" rule: fetchUsers_try.cases)
     (auto split: if_splits employees_value.splits sum.splits prod.splits)

lemma totalPages_nonneg:
  assumes "0 \<le> n"
  shows "totalPages n = max 1 \<lceil>real_of_int n / real_of_int pageSize\<rceil>"
proof -
  have "0 \<le> Math_ceil_div n pageSize"
    using assms by (rule Math_ceil_div_nonneg)
  then have "totalPages n = max 1 (Math_ceil_div n pageSize)"
    by (simp add: totalPages_def Let_def max_def)
  then show ?thesis
    by (simp only: Math_ceil_div_ceiling)
qed

lemma fetchUsers_frame [simp]:
  "nav_active (fetchUsers d p s) = nav_active s"
  "employeesSection (fetchUsers d p s) = employeesSection s"
  "clubSection (fetchUsers d p s) = clubSection s"
  "currentPage (fetchUsers d p s) = currentPage s"
  "totalEmployees (fetchUsers d p s) = totalEmployees s"
  by (simp_all add: fetchUsers_def)

lemma fetchClubs_frame [simp]:
  "nav_active (fetchClubs d s) = nav_active s"
  "employeesSection (fetchClubs d s) = employeesSection s"
  "clubSection (fetchClubs d s) = clubSection s"
  "currentPage (fetchClubs d s) = currentPage s"
  "totalEmployees (fetchClubs d s) = totalEmployees s"
  by (simp_all add: fetchClubs_def)

lemma user_fetchUsers_frame [simp]:
  "nav_active (user_fetchUsers d s) = nav_active s"
  "employeesSection (user_fetchUsers d s) = employeesSection s"
  "clubSection (user_fetchUsers d s) = clubSection s"
  by (simp_all add: user_fetchUsers_def)

lemma user_fetchClubs_frame [simp]:
  "nav_active (user_fetchClubs d s) = nav_active s"
  "employeesSection (user_fetchClubs d s) = employeesSection s"
  "clubSection (user_fetchClubs d s) = clubSection s"
  by (simp_all add: user_fetchClubs_def)

lemma fetch_requests:
  "has_userRows d \<Longrightarrow>
     requests (fetchUsers d p s) = requests s @ [GET_employees_page p pageSize]"
  "has_clubCards d \<Longrightarrow> requests (fetchClubs d s) = requests s @ [GET_clubs]"
  by (simp_all add: fetchUsers_def fetchClubs_def)

lemmas tab_click_defs =
  usersTab_click_def clubTab_click_def setActiveTab_def showSection_def hide_panel_def
  set_panel_def is_shown_def is_hidden_def Let_def

lemmas user_click_defs =
  setActiveTab_def user_showSection_def user_hide_panel_def
  set_panel_def is_shown_def is_hidden_def Let_def

lemmas concrete_defs =
  full_page_def template_state_def plain_style_def an_emp_def page_response_def
  error_response_def pageSize_def Math_ceil_div_def totalPages_def fetchUsers_assign_def

lemma on_page_two_fields:
  "currentPage on_page_two = 2"
  "totalEmployees on_page_two = 15"
  "userRows on_page_two = LoadingUsers"
  "requests on_page_two
     = [GET_employees_page 1 7, GET_employees_page 2 7, GET_employees_page 3 7]"
  by (simp_all add: on_page_two_def run_def load_admin_def concrete_defs
      fetchUsers_settled_def fetchUsers_def nextPage_click_def
      setActiveTab_def showSection_def hide_panel_def set_panel_def Let_def)

subsection \<open>Page count\<close>

text \<open>
  C1. For every non-negative total count and the fixed page size 7, the page count that
  \<open>updatePaginationUI\<close> derives is the larger of 1 and the ceiling of the total count
  over the page size; a collection of 0 items has 1 page; and that number is what the
  total-pages display is set to.
\<close>

theorem totalPages_max_ceiling:
  assumes "0 \<le> totalCount"
  shows "pageSize = 7
    \<and> totalPages totalCount = max 1 \<lceil>real_of_int totalCount / real_of_int pageSize\<rceil>
    \<and> totalPages 0 = 1
    \<and> (has_totalPageNumDisplay d \<longrightarrow>
         totalPageNum (updatePaginationUI d (s\<lparr>totalEmployees := totalCount\<rparr>))
           = NumberText (max 1 \<lceil>real_of_int totalCount / real_of_int pageSize\<rceil>))"
proof -
  have c: "Math_ceil_div totalCount pageSize
             = \<lceil>real_of_int totalCount / real_of_int pageSize\<rceil>"
    by (rule Math_ceil_div_ceiling)
  have nonneg: "0 \<le> Math_ceil_div totalCount pageSize"
    using assms by (rule Math_ceil_div_nonneg)
  have "totalPages totalCount = max 1 (Math_ceil_div totalCount pageSize)"
    using nonneg by (simp add: totalPages_def Let_def max_def)
  then have tp: "totalPages totalCount
              = max 1 \<lceil>real_of_int totalCount / real_of_int pageSize\<rceil>"
    by (simp only: c)
  have zero: "totalPages 0 = 1"
    by (simp add: totalPages_def Math_ceil_div_def)
  have shown: "has_totalPageNumDisplay d \<Longrightarrow>
      totalPageNum (updatePaginationUI d (s\<lparr>totalEmployees := totalCount\<rparr>))
        = NumberText (totalPages totalCount)"
    by (simp add: updatePaginationUI_def Let_def)
  show ?thesis
    using tp zero shown by (simp add: pageSize_def)
qed

theorem totalPages_max_ceiling_witness:
  "(0::int) \<le> 15 \<and> totalPages 15 = 3 \<and> totalPages 0 = 1
   \<and> totalPageNum (updatePaginationUI full_page (template_state\<lparr>totalEmployees := 15\<rparr>))
       = NumberText 3"
  using totalPages_max_ceiling [of 15 full_page template_state]
  by (simp add: full_page_def pageSize_def)

subsection \<open>The page invariant after a load\<close>

text \<open>
  C2, as stated, fails. In a session that has paged forward to page 2 of 15 employees and
  asked for page 3, an ok response with no records leaves \<open>currentPage\<close> at 2 and sets
  the total to 0, so the page count is 1; and an ok response with a record that reports
  page 5 of a total of 1 is copied as it is. After either load the current page is
  beyond the page count.
\<close>

theorem page_out_of_range_after_load:
  "page_in_range on_page_two
   \<and> fetchUsers_try full_page (page_response 3 14 []) on_page_two
       = Inr (step full_page on_page_two (EmployeesSettled (page_response 3 14 [])))
   \<and> \<not> page_in_range
         (step full_page on_page_two (EmployeesSettled (page_response 3 14 [])))
   \<and> fetchUsers_try full_page (page_response 5 1 [an_emp]) on_page_two
       = Inr (step full_page on_page_two (EmployeesSettled (page_response 5 1 [an_emp])))
   \<and> \<not> page_in_range
         (step full_page on_page_two (EmployeesSettled (page_response 5 1 [an_emp])))"
  using on_page_two_fields(1,2)
  by (simp add: page_in_range_def fetchUsers_settled_def concrete_defs Let_def)

text \<open>
  C2, amended. A load of an ok response with a non-empty sequence of records copies the
  reported page and total into the state, without clamping, whatever they are; the
  invariant holds afterwards if and only if the reported page lies between 1 and the
  page count of the reported total, which for a total of at least 0 is the larger of 1
  and the ceiling of the total over 7. A load that shows the no-records placeholder
  sets the total to 0 and leaves the current page as it was; the invariant holds
  afterwards if and only if the current page was 1.
\<close>

theorem page_in_range_after_load:
  "(es \<noteq> [] \<and> data_employees data = Entries (map Some es)
    \<longrightarrow> (\<exists>s1. fetchUsers_try d (Response True (JsonObject data)) s = Inr s1
            \<and> fetchUsers_settled d (Response True (JsonObject data)) s = Inr s1
            \<and> userRows s1 = UserRows (map make_row es)
            \<and> currentPage s1 = data_page data \<and> totalEmployees s1 = data_total data
            \<and> (page_in_range s1
                 \<longleftrightarrow> 1 \<le> data_page data \<and> data_page data \<le> totalPages (data_total data))
            \<and> (0 \<le> data_total data \<longrightarrow>
                 totalPages (data_total data)
                   = max 1 \<lceil>real_of_int (data_total data) / real_of_int pageSize\<rceil>)))
 \<and> (fetchUsers_try d r s = Inr s' \<and> userRows s' = NoUsersFound
    \<longrightarrow> totalEmployees s' = 0 \<and> currentPage s' = currentPage s
        \<and> (page_in_range s' \<longleftrightarrow> currentPage s = 1))"
proof (rule conjI; rule impI)
  assume a: "es \<noteq> [] \<and> data_employees data = Entries (map Some es)"
  let ?s1 = "updatePaginationUI d
               ((fetchUsers_assign data s)\<lparr>userRows := UserRows (map make_row es)\<rparr>)"
  have t: "fetchUsers_try d (Response True (JsonObject data)) s = Inr ?s1"
    using a by (simp add: forEach_rows_records)
  then have "fetchUsers_settled d (Response True (JsonObject data)) s = Inr ?s1"
    by (simp add: fetchUsers_settled_def)
  moreover have "userRows ?s1 = UserRows (map make_row es)"
    and "currentPage ?s1 = data_page data" and "totalEmployees ?s1 = data_total data"
    by simp_all
  moreover have "page_in_range ?s1
      \<longleftrightarrow> 1 \<le> data_page data \<and> data_page data \<le> totalPages (data_total data)"
    by (simp add: page_in_range_def)
  moreover have "0 \<le> data_total data \<longrightarrow>
      totalPages (data_total data)
        = max 1 \<lceil>real_of_int (data_total data) / real_of_int pageSize\<rceil>"
    by (simp add: totalPages_nonneg)
  ultimately show "\<exists>s1. fetchUsers_try d (Response True (JsonObject data)) s = Inr s1
            \<and> fetchUsers_settled d (Response True (JsonObject data)) s = Inr s1
            \<and> userRows s1 = UserRows (map make_row es)
            \<and> currentPage s1 = data_page data \<and> totalEmployees s1 = data_total data
            \<and> (page_in_range s1
                 \<longleftrightarrow> 1 \<le> data_page data \<and> data_page data \<le> totalPages (data_total data))
            \<and> (0 \<le> data_total data \<longrightarrow>
                 totalPages (data_total data)
                   = max 1 \<lceil>real_of_int (data_total data) / real_of_int pageSize\<rceil>)"
    using t by blast
next
  assume b: "fetchUsers_try d r s = Inr s' \<and> userRows s' = NoUsersFound"
  then have "fetchUsers_try d r s = Inr s'" by simp
  then have none: "s' = fetchUsers_none d s"
  proof (cases rule: fetchUsers_try_cases)
    case (records data es rows)
    with b show ?thesis by simp
  next
    case none
    then show ?thesis .
  qed
  have one: "totalPages 0 = 1"
    by (simp add: totalPages_def Math_ceil_div_def)
  from none show "totalEmployees s' = 0 \<and> currentPage s' = currentPage s
        \<and> (page_in_range s' \<longleftrightarrow> currentPage s = 1)"
    using one by (auto simp: page_in_range_def)
qed

theorem page_in_range_after_load_witness:
  "[an_emp] \<noteq> []
   \<and> (\<exists>s1. fetchUsers_settled full_page (page_response 2 15 [an_emp]) template_state = Inr s1
          \<and> currentPage s1 = 2 \<and> totalEmployees s1 = 15 \<and> page_in_range s1
          \<and> totalPages 15 = 3)
   \<and> (\<exists>s1. fetchUsers_settled full_page (page_response 5 1 [an_emp]) template_state = Inr s1
          \<and> currentPage s1 = 5 \<and> totalEmployees s1 = 1 \<and> \<not> page_in_range s1)
   \<and> fetchUsers_try full_page (page_response 1 0 []) template_state
       = Inr (fetchUsers_none full_page template_state)
   \<and> userRows (fetchUsers_none full_page template_state) = NoUsersFound
   \<and> currentPage template_state = 1
   \<and> page_in_range (fetchUsers_none full_page template_state)"
proof -
  have t: "fetchUsers_try full_page (page_response 1 0 []) template_state
       = Inr (fetchUsers_none full_page template_state)"
    by (simp add: page_response_def)
  have c: "currentPage template_state = 1"
    by (simp add: template_state_def)
  have p: "totalPages 15 = 3" "totalPages 1 = 1"
    by (simp_all add: totalPages_def pageSize_def Math_ceil_div_def)
  show ?thesis
    using page_in_range_after_load [where es = "[an_emp]"
        and data = "\<lparr>data_employees = Entries (map Some [an_emp]),
                      data_total = 15, data_page = 2\<rparr>"
        and d = full_page and s = template_state and r = "page_response 1 0 []"
        and s' = "fetchUsers_none full_page template_state"]
      page_in_range_after_load [where es = "[an_emp]"
        and data = "\<lparr>data_employees = Entries (map Some [an_emp]),
                      data_total = 1, data_page = 5\<rparr>"
        and d = full_page and s = template_state and r = "page_response 1 0 []"
        and s' = "fetchUsers_none full_page template_state"]
      t c p
    by (auto simp: page_response_def)
qed

subsection \<open>The pagination buttons\<close>

text \<open>
  C3. A click on prev issues no request when the current page is 1, and a click on next
  issues none when the current page is the page count: the state, with its list of
  requests, stays as it is. The bound of the next guard is computed from the total the
  state holds at the click: what the total-pages display and the next button were last
  set to does not enter, and a request is issued exactly when the current page is below
  the ceiling of the current total over the page size.
\<close>

theorem boundary_click_no_fetch:
  "(currentPage s = 1 \<longrightarrow> prevPage_click d s = s)
 \<and> (currentPage s = totalPages (totalEmployees s) \<longrightarrow> nextPage_click d s = s)
 \<and> nextPage_click d (s\<lparr>totalPageNum := shown, nextPage_disabled := dis\<rparr>)
     = (nextPage_click d s)\<lparr>totalPageNum := shown, nextPage_disabled := dis\<rparr>
 \<and> (requests (nextPage_click d s) \<noteq> requests s
      \<longleftrightarrow> has_nextPageBtn d \<and> has_userRows d
          \<and> currentPage s < Math_ceil_div (totalEmployees s) pageSize)"
  by (auto simp: prevPage_click_def nextPage_click_def totalPages_def Let_def fetchUsers_def)

theorem boundary_click_no_fetch_witness:
  "currentPage template_state = 1
   \<and> prevPage_click full_page template_state = template_state
   \<and> currentPage (template_state\<lparr>currentPage := 3, totalEmployees := 15\<rparr>)
       = totalPages (totalEmployees (template_state\<lparr>currentPage := 3, totalEmployees := 15\<rparr>))
   \<and> nextPage_click full_page (template_state\<lparr>currentPage := 3, totalEmployees := 15\<rparr>)
       = template_state\<lparr>currentPage := 3, totalEmployees := 15\<rparr>"
proof -
  let ?s = "template_state\<lparr>currentPage := 3, totalEmployees := 15\<rparr>"
  have a: "currentPage template_state = 1"
    by (simp add: template_state_def)
  have b: "currentPage ?s = totalPages (totalEmployees ?s)"
    by (simp add: totalPages_def pageSize_def Math_ceil_div_def)
  have p: "prevPage_click full_page template_state = template_state"
    using boundary_click_no_fetch
      [where s = template_state and d = full_page and shown = TemplateText and dis = False]
      a
    by blast
  have n: "nextPage_click full_page ?s = ?s"
    using boundary_click_no_fetch
      [where s = ?s and d = full_page and shown = TemplateText and dis = False]
      b
    by blast
  show ?thesis using a b p n by (intro conjI)
qed

text \<open>
  C4. On a page that has the two buttons, after a load has been applied to the state
  (the \<^verbatim>\<open>try\<close> block ran to its end), the prev button is disabled if and only if the
  current page is at most 1, and the next button is disabled if and only if the current
  page is at least the page count.
\<close>

theorem load_sets_buttons:
  assumes "has_prevPageBtn d" and "has_nextPageBtn d"
    and "fetchUsers_try d r s = Inr s'"
  shows "(prevPage_disabled s' \<longleftrightarrow> currentPage s' \<le> 1)
       \<and> (nextPage_disabled s' \<longleftrightarrow> currentPage s' \<ge> totalPages (totalEmployees s'))"
  using assms(3)
proof (cases rule: fetchUsers_try_cases)
  case (records data es rows)
  then show ?thesis using assms(1,2) by (simp add: updatePaginationUI_buttons)
next
  case none
  then show ?thesis using assms(1,2)
    by (simp add: fetchUsers_none_def updatePaginationUI_buttons)
qed

theorem load_sets_buttons_witness:
  "has_prevPageBtn full_page \<and> has_nextPageBtn full_page
   \<and> fetchUsers_try full_page (page_response 3 15 [an_emp]) on_page_two
       = Inr (step full_page on_page_two (EmployeesSettled (page_response 3 15 [an_emp])))
   \<and> currentPage (step full_page on_page_two (EmployeesSettled (page_response 3 15 [an_emp]))) = 3
   \<and> \<not> prevPage_disabled
         (step full_page on_page_two (EmployeesSettled (page_response 3 15 [an_emp])))
   \<and> nextPage_disabled
         (step full_page on_page_two (EmployeesSettled (page_response 3 15 [an_emp])))"
proof -
  have p: "has_prevPageBtn full_page" and n: "has_nextPageBtn full_page"
    by (simp_all add: full_page_def)
  have t: "fetchUsers_try full_page (page_response 3 15 [an_emp]) on_page_two
       = Inr (step full_page on_page_two (EmployeesSettled (page_response 3 15 [an_emp])))"
    by (simp add: page_response_def fetchUsers_settled_def)
  have c: "currentPage (step full_page on_page_two
             (EmployeesSettled (page_response 3 15 [an_emp]))) = 3"
    and e: "totalEmployees (step full_page on_page_two
             (EmployeesSettled (page_response 3 15 [an_emp]))) = 15"
    by (simp_all add: page_response_def fetchUsers_settled_def)
  show ?thesis
    using load_sets_buttons [OF p n t] p n t c e
    by (simp add: totalPages_def pageSize_def Math_ceil_div_def)
qed

subsection \<open>Failed fetches\<close>

text \<open>
  C5, as stated, fails for a non-success status. In the session on page 2 of 15
  employees, a response with status not ok and a JSON body takes the \<^verbatim>\<open>else\<close> branch:
  the total is reset to 0 and the list shows the no-records placeholder, not the error.
\<close>

theorem error_status_resets_total:
  "fetchUsers_settled full_page error_response on_page_two
     = Inr (step full_page on_page_two (EmployeesSettled error_response))
   \<and> totalEmployees on_page_two = 15
   \<and> totalEmployees (step full_page on_page_two (EmployeesSettled error_response)) = 0
   \<and> userRows (step full_page on_page_two (EmployeesSettled error_response)) = NoUsersFound
   \<and> userRows (step full_page on_page_two (EmployeesSettled error_response))
       \<noteq> ErrorConnecting"
  using on_page_two_fields(2)
  by (simp add: error_response_def fetchUsers_settled_def)

text \<open>
  C5, amended. A fetch fails by a network error or with a non-success status. After a
  network error, and after a non-success status whose body is not JSON, the current
  page and the total stay as they were, the list shows the connectivity error, the
  function returns normally and no request is issued. After a non-success status whose
  body is JSON the function also returns normally and issues no request, and the
  current page stays, but the total is set to 0 and the list shows the no-records
  placeholder.
\<close>

theorem failed_fetch_page_state:
  "(r = NetworkError \<or> r = Response False NotJson
    \<longrightarrow> (\<exists>s'. fetchUsers_settled d r s = Inr s'
            \<and> currentPage s' = currentPage s \<and> totalEmployees s' = totalEmployees s
            \<and> userRows s' = ErrorConnecting \<and> requests s' = requests s))
 \<and> (b \<noteq> NotJson
    \<longrightarrow> (\<exists>s'. fetchUsers_settled d (Response False b) s = Inr s'
            \<and> currentPage s' = currentPage s \<and> totalEmployees s' = 0
            \<and> userRows s' = NoUsersFound \<and> requests s' = requests s))"
proof (intro conjI impI)
  assume "r = NetworkError \<or> r = Response False NotJson"
  then show "\<exists>s'. fetchUsers_settled d r s = Inr s'
            \<and> currentPage s' = currentPage s \<and> totalEmployees s' = totalEmployees s
            \<and> userRows s' = ErrorConnecting \<and> requests s' = requests s"
    by (auto simp: fetchUsers_settled_def)
next
  assume "b \<noteq> NotJson"
  then have "fetchUsers_try d (Response False b) s = Inr (fetchUsers_none d s)"
    by (cases b) (simp_all split: employees_value.splits)
  then show "\<exists>s'. fetchUsers_settled d (Response False b) s = Inr s'
            \<and> currentPage s' = currentPage s \<and> totalEmployees s' = 0
            \<and> userRows s' = NoUsersFound \<and> requests s' = requests s"
    by (simp add: fetchUsers_settled_def)
qed

theorem failed_fetch_page_state_witness:
  "(\<exists>s'. fetchUsers_settled full_page NetworkError on_page_two = Inr s'
        \<and> currentPage s' = 2 \<and> totalEmployees s' = 15
        \<and> userRows s' = ErrorConnecting
        \<and> requests s'
            = [GET_employees_page 1 7, GET_employees_page 2 7, GET_employees_page 3 7])
   \<and> (\<exists>s'. fetchUsers_settled full_page (Response False NotJson) on_page_two = Inr s'
        \<and> currentPage s' = 2 \<and> totalEmployees s' = 15 \<and> userRows s' = ErrorConnecting)
   \<and> (\<exists>s'. fetchUsers_settled full_page (Response False JsonNull) on_page_two = Inr s'
        \<and> currentPage s' = 2 \<and> totalEmployees s' = 0 \<and> userRows s' = NoUsersFound)"
proof -
  have a: "(NetworkError :: page_data fetched) = NetworkError
      \<or> (NetworkError :: page_data fetched) = Response False NotJson"
    by simp
  have b: "(Response False NotJson :: page_data fetched) = NetworkError
      \<or> (Response False NotJson :: page_data fetched) = Response False NotJson"
    by simp
  have c: "(JsonNull :: page_data json_body) \<noteq> NotJson"
    by simp
  show ?thesis
    using failed_fetch_page_state
        [where r = NetworkError and d = full_page and s = on_page_two and b = JsonNull]
      failed_fetch_page_state
        [where r = "Response False NotJson" and d = full_page and s = on_page_two
           and b = JsonNull]
      a b c
    by (auto simp: on_page_two_fields)
qed

text \<open>
  C9, as stated, fails for a body that is JSON \<^verbatim>\<open>null\<close> on an ok response: it parses,
  it has no \<^verbatim>\<open>employees\<close> field, and reading the field throws, so the list shows the
  connectivity error and the total stays (here 15).
\<close>

theorem null_body_shows_error:
  "fetchUsers_settled full_page (Response True JsonNull) on_page_two
     = Inr (on_page_two\<lparr>userRows := ErrorConnecting\<rparr>)
   \<and> userRows (on_page_two\<lparr>userRows := ErrorConnecting\<rparr>) \<noteq> NoUsersFound
   \<and> totalEmployees (on_page_two\<lparr>userRows := ErrorConnecting\<rparr>) = 15
   \<and> totalEmployees (on_page_two\<lparr>userRows := ErrorConnecting\<rparr>) \<noteq> 0"
  using on_page_two_fields(2) by (simp add: fetchUsers_settled_def)

text \<open>
  C9, amended. When the body parses as JSON and the status is not ok, or the body is not
  \<^verbatim>\<open>null\<close> and has no \<^verbatim>\<open>employees\<close> field or an empty one, the load sets the total
  to 0, leaves the current page as it is and shows the no-records placeholder, not the
  connectivity error.
\<close>

theorem no_records_placeholder:
  assumes "(\<not> ok \<and> b \<noteq> NotJson)
         \<or> (\<exists>data. b = JsonObject data
               \<and> (data_employees data = Absent \<or> data_employees data = Entries []))"
  shows "\<exists>s'. fetchUsers_settled d (Response ok b) s = Inr s'
            \<and> totalEmployees s' = 0 \<and> currentPage s' = currentPage s
            \<and> userRows s' = NoUsersFound \<and> userRows s' \<noteq> ErrorConnecting"
proof -
  have "fetchUsers_try d (Response ok b) s = Inr (fetchUsers_none d s)"
    using assms by (cases b) (auto split: employees_value.splits)
  then show ?thesis by (simp add: fetchUsers_settled_def)
qed

theorem no_records_placeholder_witness:
  "(\<exists>s'. fetchUsers_settled full_page
           (Response False (JsonObject
              \<lparr>data_employees = Entries [Some an_emp], data_total = 15, data_page = 3\<rparr>))
           on_page_two
         = Inr s'
        \<and> totalEmployees s' = 0 \<and> currentPage s' = 2 \<and> userRows s' = NoUsersFound)
   \<and> (\<exists>s'. fetchUsers_settled full_page (page_response 3 15 []) on_page_two = Inr s'
        \<and> totalEmployees s' = 0 \<and> currentPage s' = 2 \<and> userRows s' = NoUsersFound)"
proof -
  have a: "(\<not> False
        \<and> JsonObject \<lparr>data_employees = Entries [Some an_emp], data_total = 15, data_page = 3\<rparr>
            \<noteq> NotJson)
      \<or> (\<exists>data. JsonObject
                   \<lparr>data_employees = Entries [Some an_emp], data_total = 15, data_page = 3\<rparr>
                  = JsonObject data
               \<and> (data_employees data = Absent \<or> data_employees data = Entries []))"
    by simp
  have b: "(\<not> True
        \<and> JsonObject \<lparr>data_employees = Entries [], data_total = 15, data_page = 3\<rparr>
            \<noteq> NotJson)
      \<or> (\<exists>data. JsonObject \<lparr>data_employees = Entries [], data_total = 15, data_page = 3\<rparr>
                  = JsonObject data
               \<and> (data_employees data = Absent \<or> data_employees data = Entries []))"
    by simp
  show ?thesis
    using no_records_placeholder [OF a, of full_page on_page_two]
      no_records_placeholder [OF b, of full_page on_page_two]
    by (auto simp: page_response_def on_page_two_fields)
qed

subsection \<open>Tabs and sections\<close>

text \<open>
  C6. On a page that has the tabs, the sections and the two lists: a click on the users
  tab marks it active, shows the employees section and hides the club section, sets the
  current page to 1 and issues the request for page 1 with size 7; a click on the club
  tab marks it active, shows the club section and hides the employees section, and
  issues exactly one request, the unpaged one for the clubs.
\<close>

theorem section_tab_click:
  assumes "has_usersTab d" and "has_employeesSection d" and "has_userRows d"
    and "has_clubTab d" and "has_clubSection d" and "has_clubCards d"
  shows "UsersTab \<in> nav_active (selectTab d UsersTab s)
       \<and> is_shown (employeesSection (selectTab d UsersTab s))
       \<and> is_hidden (clubSection (selectTab d UsersTab s))
       \<and> currentPage (selectTab d UsersTab s) = 1
       \<and> requests (selectTab d UsersTab s) = requests s @ [GET_employees_page 1 7]
       \<and> ClubTab \<in> nav_active (selectTab d ClubTab s)
       \<and> is_shown (clubSection (selectTab d ClubTab s))
       \<and> is_hidden (employeesSection (selectTab d ClubTab s))
       \<and> requests (selectTab d ClubTab s) = requests s @ [GET_clubs]"
  using assms by (simp add: tab_click_defs fetch_requests pageSize_def)

theorem section_tab_click_witness:
  "has_usersTab full_page \<and> has_employeesSection full_page \<and> has_userRows full_page
   \<and> has_clubTab full_page \<and> has_clubSection full_page \<and> has_clubCards full_page
   \<and> currentPage on_page_two = 2
   \<and> currentPage (selectTab full_page UsersTab on_page_two) = 1
   \<and> requests (selectTab full_page UsersTab on_page_two)
       = [GET_employees_page 1 7, GET_employees_page 2 7, GET_employees_page 3 7,
          GET_employees_page 1 7]
   \<and> requests (selectTab full_page ClubTab on_page_two)
       = [GET_employees_page 1 7, GET_employees_page 2 7, GET_employees_page 3 7, GET_clubs]
   \<and> is_shown (clubSection (selectTab full_page ClubTab on_page_two))
   \<and> is_hidden (employeesSection (selectTab full_page ClubTab on_page_two))"
proof -
  have h: "has_usersTab full_page" "has_employeesSection full_page" "has_userRows full_page"
    "has_clubTab full_page" "has_clubSection full_page" "has_clubCards full_page"
    by (simp_all add: full_page_def)
  show ?thesis
    using section_tab_click [OF h, of on_page_two] h on_page_two_fields by simp
qed

lemma selectTab_exclusive:
  assumes "has_usersTab d" and "has_clubTab d"
    and "has_employeesSection d" and "has_clubSection d"
    and "UsersTab \<in> nav_tab d" and "ClubTab \<in> nav_tab d"
    and "nav_active s \<subseteq> nav_tab d" and "t = UsersTab \<or> t = ClubTab"
  shows "exclusive t (selectTab d t s)"
  using assms by (auto simp: exclusive_def tab_click_defs)

lemma user_selectTab_exclusive:
  assumes "has_usersTab d" and "has_clubTab d"
    and "has_employeesSection d" and "has_clubSection d"
    and "UsersTab \<in> nav_tab d" and "ClubTab \<in> nav_tab d"
    and "nav_active s \<subseteq> nav_tab d" and "t = UsersTab \<or> t = ClubTab"
  shows "exclusive t (user_selectTab d t s)"
  using assms by (auto simp: exclusive_def user_click_defs)

lemma load_admin_exclusive:
  assumes "has_usersTab d" and "has_employeesSection d" and "has_clubSection d"
    and "nav_active template \<subseteq> nav_tab d"
  shows "exclusive UsersTab (load_admin d template)"
  using assms by (auto simp: exclusive_def load_admin_def tab_click_defs)

lemma load_user_exclusive:
  assumes "has_usersTab d" and "has_employeesSection d" and "has_clubSection d"
    and "nav_active template \<subseteq> nav_tab d"
  shows "exclusive UsersTab (load_user d template)"
  using assms by (auto simp: exclusive_def load_user_def user_click_defs)

lemma exclusive_nav_tab:
  "exclusive t s \<Longrightarrow> t \<in> nav_tab d \<Longrightarrow> nav_active s \<subseteq> nav_tab d"
  by (simp add: exclusive_def)

text \<open>
  Any click function that establishes \<open>exclusive\<close> from a state whose marked tabs are
  of class \<^verbatim>\<open>nav-tab\<close> keeps it along a sequence of clicks: induction on the
  sequence, from its end.
\<close>

lemma clicks_exclusive:
  assumes cls: "UsersTab \<in> nav_tab d" "ClubTab \<in> nav_tab d"
    and sel: "\<And>s t. nav_active s \<subseteq> nav_tab d \<Longrightarrow> t = UsersTab \<or> t = ClubTab
                \<Longrightarrow> exclusive t (sel t s)"
    and start: "exclusive t0 s0" "t0 = UsersTab \<or> t0 = ClubTab"
    and ts: "set ts \<subseteq> {UsersTab, ClubTab}"
  shows "exclusive (last (t0 # ts)) (foldl (\<lambda>s t. sel t s) s0 ts)"
  using ts
proof (induction ts rule: rev_induct)
  case Nil
  show ?case using start by simp
next
  case (snoc t ts)
  then have prev: "exclusive (last (t0 # ts)) (foldl (\<lambda>s t. sel t s) s0 ts)" by simp
  have "last (t0 # ts) \<in> set (t0 # ts)" by (rule last_in_set) simp
  with snoc.prems start(2) have "last (t0 # ts) \<in> nav_tab d" using cls by auto
  with prev have "nav_active (foldl (\<lambda>s t. sel t s) s0 ts) \<subseteq> nav_tab d"
    by (rule exclusive_nav_tab)
  moreover from snoc.prems have "t = UsersTab \<or> t = ClubTab" by simp
  ultimately have "exclusive t (sel t (foldl (\<lambda>s t. sel t s) s0 ts))" by (rule sel)
  then show ?case by simp
qed

lemma exclusive_exactly_one:
  assumes "exclusive t s"
  shows "is_shown (employeesSection s) \<noteq> is_shown (clubSection s)"
    and "card (nav_active s) = 1"
  using assms by (cases t; simp add: exclusive_def is_shown_def is_hidden_def)+

text \<open>
  C7. On a page that has the two tabs and the two sections, where both tabs are of class
  \<^verbatim>\<open>nav-tab\<close> and so is every tab the template marks active: after the script has
  loaded and after any sequence of clicks on the users and club tabs, exactly the tab
  clicked last (the users tab if none was) is marked active, its section is shown and
  the other section is hidden; so exactly one section is shown and exactly one tab is
  marked. This holds for \<^verbatim>\<open>admin.js\<close> and for \<^verbatim>\<open>user.js\<close>.
\<close>

theorem one_section_one_tab:
  assumes "has_usersTab d" and "has_clubTab d"
    and "has_employeesSection d" and "has_clubSection d"
    and "UsersTab \<in> nav_tab d" and "ClubTab \<in> nav_tab d"
    and "nav_active template \<subseteq> nav_tab d"
    and "set ts \<subseteq> {UsersTab, ClubTab}"
  shows "exclusive (last (UsersTab # ts)) (admin_clicks d template ts)
       \<and> is_shown (employeesSection (admin_clicks d template ts))
           \<noteq> is_shown (clubSection (admin_clicks d template ts))
       \<and> card (nav_active (admin_clicks d template ts)) = 1
       \<and> exclusive (last (UsersTab # ts)) (user_clicks d template ts)
       \<and> is_shown (employeesSection (user_clicks d template ts))
           \<noteq> is_shown (clubSection (user_clicks d template ts))
       \<and> card (nav_active (user_clicks d template ts)) = 1"
proof -
  have admin: "exclusive (last (UsersTab # ts)) (admin_clicks d template ts)"
    unfolding admin_clicks_def
  proof (rule clicks_exclusive [where sel = "selectTab d" and d = d])
    show "exclusive UsersTab (load_admin d template)"
      using assms(1,3,4,7) by (rule load_admin_exclusive)
  qed (simp_all add: assms selectTab_exclusive)
  have user: "exclusive (last (UsersTab # ts)) (user_clicks d template ts)"
    unfolding user_clicks_def
  proof (rule clicks_exclusive [where sel = "user_selectTab d" and d = d])
    show "exclusive UsersTab (load_user d template)"
      using assms(1,3,4,7) by (rule load_user_exclusive)
  qed (simp_all add: assms user_selectTab_exclusive)
  show ?thesis
    using admin user exclusive_exactly_one [OF admin] exclusive_exactly_one [OF user]
    by (intro conjI)
qed

theorem one_section_one_tab_witness:
  "has_usersTab full_page \<and> has_clubTab full_page
   \<and> has_employeesSection full_page \<and> has_clubSection full_page
   \<and> UsersTab \<in> nav_tab full_page \<and> ClubTab \<in> nav_tab full_page
   \<and> nav_active (template_state\<lparr>nav_active := {ScanTab}\<rparr>) \<subseteq> nav_tab full_page
   \<and> set [ClubTab, UsersTab, ClubTab] \<subseteq> {UsersTab, ClubTab}
   \<and> exclusive ClubTab
        (admin_clicks full_page (template_state\<lparr>nav_active := {ScanTab}\<rparr>)
           [ClubTab, UsersTab, ClubTab])
   \<and> exclusive ClubTab
        (user_clicks full_page (template_state\<lparr>nav_active := {ScanTab}\<rparr>)
           [ClubTab, UsersTab, ClubTab])"
proof -
  have h: "has_usersTab full_page" "has_clubTab full_page"
    "has_employeesSection full_page" "has_clubSection full_page"
    "UsersTab \<in> nav_tab full_page" "ClubTab \<in> nav_tab full_page"
    "nav_active (template_state\<lparr>nav_active := {ScanTab}\<rparr>) \<subseteq> nav_tab full_page"
    by (simp_all add: full_page_def)
  have l: "set [ClubTab, UsersTab, ClubTab] \<subseteq> {UsersTab, ClubTab}"
    by simp
  have "last [UsersTab, ClubTab, UsersTab, ClubTab] = ClubTab"
    by simp
  with one_section_one_tab [OF h l] show ?thesis
    using h l by simp
qed

text \<open>
  C8. A click on the attendance, scan or logout tab changes nothing but
  \<^verbatim>\<open>window.location.href\<close>, which it sets to the tab's fixed path (and it changes
  nothing at all if the page lacks the tab): the active tab, the sections, the current
  page, the total and the requests stay as they were.
\<close>

theorem passthrough_tab_click:
  assumes "t = AttendanceTab \<or> t = ScanTab \<or> t = LogoutTab"
  shows "selectTab d t s =
           (if has_tab d t
            then s\<lparr>location_href :=
                     Some (case t of AttendanceTab \<Rightarrow> ''/attendance''
                                   | ScanTab \<Rightarrow> ''/scan'' | _ \<Rightarrow> ''/logout'')\<rparr>
            else s)
       \<and> nav_active (selectTab d t s) = nav_active s
       \<and> employeesSection (selectTab d t s) = employeesSection s
       \<and> clubSection (selectTab d t s) = clubSection s
       \<and> currentPage (selectTab d t s) = currentPage s
       \<and> totalEmployees (selectTab d t s) = totalEmployees s
       \<and> requests (selectTab d t s) = requests s"
  using assms by (auto simp: navigate_def)

theorem passthrough_tab_click_witness:
  "selectTab full_page LogoutTab on_page_two = on_page_two\<lparr>location_href := Some ''/logout''\<rparr>
   \<and> selectTab full_page AttendanceTab on_page_two
       = on_page_two\<lparr>location_href := Some ''/attendance''\<rparr>
   \<and> currentPage (selectTab full_page ScanTab on_page_two) = 2
   \<and> totalEmployees (selectTab full_page ScanTab on_page_two) = 15"
proof -
  have a: "LogoutTab = AttendanceTab \<or> LogoutTab = ScanTab \<or> LogoutTab = LogoutTab"
    and b: "AttendanceTab = AttendanceTab \<or> AttendanceTab = ScanTab \<or> AttendanceTab = LogoutTab"
    and c: "ScanTab = AttendanceTab \<or> ScanTab = ScanTab \<or> ScanTab = LogoutTab"
    by simp_all
  have h: "has_tab full_page LogoutTab" "has_tab full_page AttendanceTab"
    by (simp_all add: full_page_def)
  show ?thesis
    using passthrough_tab_click [OF a, of full_page on_page_two]
      passthrough_tab_click [OF b, of full_page on_page_two]
      passthrough_tab_click [OF c, of full_page on_page_two] h
    by (simp add: on_page_two_fields)
qed

subsection \<open>The two page counts\<close>

text \<open>
  C10. On a page that has the next button and the list, for a total of at least 0 and a
  current page of at least 1: a click on next issues a request if and only if
  \<open>updatePaginationUI\<close> leaves the next button enabled. The listener compares the
  current page with the ceiling of the total over 7, the display with that number
  floored at 1; the two comparisons agree.
\<close>

theorem next_guard_agrees_with_display:
  assumes "0 \<le> totalEmployees s" and "1 \<le> currentPage s"
    and "has_nextPageBtn d" and "has_userRows d"
  shows "((requests (nextPage_click d s) \<noteq> requests s)
            \<longleftrightarrow> \<not> nextPage_disabled (updatePaginationUI d s))
       \<and> ((currentPage s < Math_ceil_div (totalEmployees s) pageSize)
            \<longleftrightarrow> \<not> (currentPage s \<ge> totalPages (totalEmployees s)))"
  using assms
  by (auto simp: nextPage_click_def updatePaginationUI_buttons totalPages_def Let_def
      fetchUsers_def)

theorem next_guard_agrees_with_display_witness:
  "(0::int) \<le> totalEmployees template_state \<and> 1 \<le> currentPage template_state
   \<and> has_nextPageBtn full_page \<and> has_userRows full_page
   \<and> requests (nextPage_click full_page template_state) = requests template_state
   \<and> nextPage_disabled (updatePaginationUI full_page template_state)
   \<and> Math_ceil_div (totalEmployees template_state) pageSize = 0
   \<and> totalPages (totalEmployees template_state) = 1"
proof -
  have h: "0 \<le> totalEmployees template_state" "1 \<le> currentPage template_state"
    "has_nextPageBtn full_page" "has_userRows full_page"
    by (simp_all add: full_page_def template_state_def)
  have c: "Math_ceil_div (totalEmployees template_state) pageSize = 0"
    "totalPages (totalEmployees template_state) = 1"
    "currentPage template_state = 1"
    by (simp_all add: template_state_def totalPages_def pageSize_def Math_ceil_div_def)
  have r: "requests (nextPage_click full_page template_state) = requests template_state"
    by (simp add: nextPage_click_def c Let_def)
  show ?thesis
    using next_guard_agrees_with_display [OF h] h c r by simp
qed

end
